theory Spec2Isabelle
  imports Complex_Main
begin

section \<open>Strings\<close>

text \<open>
  Strings are lists of 8-bit code units. The operations below are the string methods the
  runtime calls (\<^verbatim>\<open>endsWith\<close>, \<^verbatim>\<open>startsWith\<close>, \<^verbatim>\<open>includes\<close> as \<open>str_includes\<close>, \<^verbatim>\<open>split\<close>) and the decimal
  printing of a number inside a template literal. Numbers are exact integers: the
  rounding of doubles beyond \<open>2^53\<close> and the exponent notation of very large numbers are
  outside the model.
\<close>

definition endsWith :: "string \<Rightarrow> string \<Rightarrow> bool" where
  "endsWith s suffix =
     (length suffix \<le> length s \<and> drop (length s - length suffix) s = suffix)"

definition startsWith :: "string \<Rightarrow> string \<Rightarrow> bool" where
  "startsWith s p = (take (length p) s = p)"

fun str_includes :: "string \<Rightarrow> string \<Rightarrow> bool" where
  "str_includes [] n = (n = [])"
| "str_includes (c # cs) n = (startsWith (c # cs) n \<or> str_includes cs n)"

text \<open>\<^verbatim>\<open>s.split(d)\<close> for a one-character separator: \<^verbatim>\<open>''.split('/')\<close> is \<^verbatim>\<open>['']\<close>.\<close>

fun split_on :: "char \<Rightarrow> string \<Rightarrow> string list" where
  "split_on d [] = [[]]"
| "split_on d (c # cs) =
     (if c = d then [] # split_on d cs
      else (case split_on d cs of [] \<Rightarrow> [[c]] | w # ws \<Rightarrow> (c # w) # ws))"

definition is_digit :: "char \<Rightarrow> bool" where
  "is_digit c = (c \<in> set ''0123456789'')"

text \<open>The regular expression \<^verbatim>\<open>\d+\<close> against a whole string.\<close>

definition all_digits :: "string \<Rightarrow> bool" where
  "all_digits s = (s \<noteq> [] \<and> list_all is_digit s)"

definition digit_char :: "nat \<Rightarrow> char" where
  "digit_char d = ''0123456789'' ! d"

fun show_nat :: "nat \<Rightarrow> string" where
  "show_nat n =
     (if n < 10 then [digit_char n] else show_nat (n div 10) @ [digit_char (n mod 10)])"

declare show_nat.simps [simp del]

definition show_int :: "int \<Rightarrow> string" where
  "show_int i = (if i < 0 then CHR ''-'' # show_nat (nat (- i)) else show_nat (nat i))"

definition digit_val :: "char \<Rightarrow> nat" where
  "digit_val c = of_char c - 48"

definition digits_value :: "string \<Rightarrow> nat" where
  "digits_value ds = foldl (\<lambda>a c. 10 * a + digit_val c) 0 ds"

text \<open>
  The white space \<^verbatim>\<open>parseInt\<close> skips, among the 8-bit code units: TAB, LF, VT, FF, CR,
  SP and NBSP.
\<close>

definition js_whitespace :: "char \<Rightarrow> bool" where
  "js_whitespace c = (c \<in> set [CHR 0x09, CHR 0x0A, CHR 0x0B, CHR 0x0C, CHR 0x0D, CHR 0x20, CHR 0xA0])"

text \<open>
  \<^verbatim>\<open>parseInt(s, 10)\<close>: leading white space, an optional sign, then the longest run of
  decimal digits; \<open>None\<close> is \<^verbatim>\<open>NaN\<close>.
\<close>

definition parseInt :: "string \<Rightarrow> int option" where
  "parseInt s =
     (let t = dropWhile js_whitespace s;
          neg = (t \<noteq> [] \<and> hd t = CHR ''-'');
          u = (if t \<noteq> [] \<and> (hd t = CHR ''-'' \<or> hd t = CHR ''+'') then tl t else t);
          ds = takeWhile is_digit u
      in if ds = [] then None
         else Some ((if neg then - 1 else 1) * int (digits_value ds)))"

text \<open>The line terminators that \<^verbatim>\<open>.\<close> of a regular expression does not match.\<close>

definition line_terminator :: "char \<Rightarrow> bool" where
  "line_terminator c = (c = CHR 0x0A \<or> c = CHR 0x0D)"

section \<open>Thrown values\<close>

text \<open>
  What the \<^verbatim>\<open>catch\<close> block of \<^verbatim>\<open>load\<close> reads of a thrown value: its class, its \<^verbatim>\<open>code\<close>
  and \<^verbatim>\<open>failed\<close> properties and its \<^verbatim>\<open>toString()\<close>.
\<close>

datatype err_class = SyntaxError | ReferenceError | NotFoundError | OtherError

record js_error =
  e_class :: err_class
  e_code :: "string option"
  e_failed :: bool
  e_text :: string

text \<open>\<^verbatim>\<open>new Error(msg)\<close>\<close>

definition mk_error :: "string \<Rightarrow> js_error" where
  "mk_error msg =
     \<lparr>e_class = OtherError, e_code = None, e_failed = False, e_text = ''Error: '' @ msg\<rparr>"

section \<open>The pages root\<close>

text \<open>
  What \<^verbatim>\<open>search.ts\<close> reads of its surroundings: the pages directory of the configuration,
  through \<^verbatim>\<open>existsSync\<close> and through the glob for collection pages, and the
  regular-expression engine of the runtime. \<open>pages_exists\<close> tells whether the directory
  holds an entry under a path given by its segments; \<open>pages_glob\<close> is the list
  \<^verbatim>\<open>glob('**/$*.astro', {cwd: pages, filesOnly: true})\<close> returns, paths relative to the
  pages directory. \<open>regexp_match source url\<close> is what
  \<^verbatim>\<open>url.match(new RegExp(source))\<close> gives: \<open>Inl\<close> the \<^verbatim>\<open>SyntaxError\<close> that the
  constructor throws when the source is no regular expression, \<open>Inr None\<close> no match,
  \<open>Inr (Some None)\<close> a match whose group 1 took no part, \<open>Inr (Some (Some g))\<close> a
  match with group 1 equal to \<open>g\<close>.
\<close>

record astro_config =
  pages_exists :: "string list \<Rightarrow> bool"
  pages_glob :: "string list"
  regexp_match :: "string \<Rightarrow> string \<Rightarrow> js_error + string option option"

text \<open>
  A file path names an entry by its non-empty segments: the operating system reads
  \<^verbatim>\<open>blog//index.astro\<close> as \<^verbatim>\<open>blog/index.astro\<close>.
\<close>

definition path_segments :: "string \<Rightarrow> string list" where
  "path_segments p = filter (\<lambda>s. s \<noteq> []) (split_on CHR ''/'' p)"

text \<open>\<^verbatim>\<open>existsSync(new URL(`./${candidate}`, astroConfig.pages))\<close>\<close>

definition existsSync :: "astro_config \<Rightarrow> string \<Rightarrow> bool" where
  "existsSync cfg candidate = pages_exists cfg (path_segments candidate)"

fun findAnyPage :: "string list \<Rightarrow> astro_config \<Rightarrow> string option" where
  "findAnyPage [] cfg = None"
| "findAnyPage (candidate # rest) cfg =
     (if existsSync cfg candidate then Some candidate else findAnyPage rest cfg)"

datatype location = PageFile string | Frontend500

datatype search_result =
    SR200 location string "int option"
  | SR301 string
  | SR404

text \<open>
  \<^verbatim>\<open>path.extname\<close> (POSIX): the extension of the last non-empty segment, from its last
  dot; empty when the segment has no dot, when the dot is its first character and when the
  segment is \<^verbatim>\<open>..\<close>.
\<close>

definition last_segment :: "string \<Rightarrow> string" where
  "last_segment p =
     rev (takeWhile (\<lambda>c. c \<noteq> CHR ''/'') (dropWhile (\<lambda>c. c = CHR ''/'') (rev p)))"

definition extname :: "string \<Rightarrow> string" where
  "extname p =
     (let seg = last_segment p;
          ext = rev (takeWhile (\<lambda>c. c \<noteq> CHR ''.'') (rev seg));
          stem = rev (drop 1 (dropWhile (\<lambda>c. c \<noteq> CHR ''.'') (rev seg)))
      in if CHR ''.'' \<notin> set seg \<or> stem = [] \<or> seg = ''..'' then []
         else CHR ''.'' # ext)"

section \<open>The collection matcher\<close>

text \<open>
  \<^verbatim>\<open>pageURL.replace(/\$([^/]+)\.astro/, '$1')\<close>. \<open>dollar_name t\<close> matches
  \<^verbatim>\<open>([^/]+)\.astro\<close> at the start of \<open>t\<close>, the group as long as it can be, and returns the
  group and the text after the match; \<open>collection_pattern\<close> replaces the leftmost match.
\<close>

fun dollar_name :: "string \<Rightarrow> (string \<times> string) option" where
  "dollar_name [] = None"
| "dollar_name (c # cs) =
     (if c = CHR ''/'' then None
      else (case dollar_name cs of
              Some (g, rest) \<Rightarrow> Some (c # g, rest)
            | None \<Rightarrow> if startsWith cs ''.astro'' then Some ([c], drop 6 cs) else None))"

fun collection_pattern :: "string \<Rightarrow> string" where
  "collection_pattern [] = []"
| "collection_pattern (c # cs) =
     (if c = CHR ''$'' then
        (case dollar_name cs of
           Some (g, rest) \<Rightarrow> g @ rest
         | None \<Rightarrow> c # collection_pattern cs)
      else c # collection_pattern cs)"

text \<open>The source of the regular expression of line 105, from the text of the replacement.\<close>

definition reqURL_source :: "string \<Rightarrow> string" where
  "reqURL_source pat = ''^/'' @ pat @ ''(?:/(.*)|/?$)''"

text \<open>Lines 108 to 117: the page number read off the last segment of group 1.\<close>

definition page_of_capture :: "string option \<Rightarrow> int option" where
  "page_of_capture m1 =
     (case m1 of
        None \<Rightarrow> None
      | Some g \<Rightarrow>
          if g = [] then None
          else (let segments = filter (\<lambda>s. s \<noteq> []) (split_on CHR ''/'' g)
                in if segments = [] then None
                   else (case parseInt (last segments) of
                           None \<Rightarrow> None
                         | Some n \<Rightarrow> if n = 0 then None else Some n)))"

record collection_match =
  cm_location :: location
  cm_currentPage :: "int option"

text \<open>
  The loop of lines 104 to 124 over the pages of the glob: \<open>Inl\<close> when the constructor
  of a regular expression throws, \<open>Inr None\<close> when the loop ends with no match.
\<close>

fun loadCollection_pages ::
  "string \<Rightarrow> astro_config \<Rightarrow> string list \<Rightarrow> js_error + collection_match option" where
  "loadCollection_pages url cfg [] = Inr None"
| "loadCollection_pages url cfg (pageURL # pages) =
     (case regexp_match cfg (reqURL_source (collection_pattern pageURL)) url of
        Inl err \<Rightarrow> Inl err
      | Inr None \<Rightarrow> loadCollection_pages url cfg pages
      | Inr (Some m1) \<Rightarrow>
          Inr (Some \<lparr>cm_location = PageFile pageURL, cm_currentPage = page_of_capture m1\<rparr>))"

definition loadCollection ::
  "string \<Rightarrow> astro_config \<Rightarrow> js_error + collection_match option" where
  "loadCollection url cfg = loadCollection_pages url cfg (pages_glob cfg)"

section \<open>The page resolver\<close>

text \<open>
  \<open>searchForPage\<close> takes the decoded path of the request, \<^verbatim>\<open>decodeURI(url.pathname)\<close>.
  \<open>Inl\<close> is the error that the collection matcher throws.
\<close>

definition searchForPage :: "string \<Rightarrow> astro_config \<Rightarrow> js_error + search_result" where
  "searchForPage reqPath cfg =
     (let base = drop 1 reqPath in
      case (if endsWith reqPath ''/''
            then findAnyPage [base @ ''index.astro'', base @ ''index.md''] cfg
            else findAnyPage [base @ ''.astro'', base @ ''.md''] cfg) of
        Some loc \<Rightarrow> Inr (SR200 (PageFile loc) reqPath None)
      | None \<Rightarrow>
          (case findAnyPage [base @ ''/index.astro'', base @ ''/index.md''] cfg of
             Some loc \<Rightarrow> Inr (SR301 (reqPath @ ''/''))
           | None \<Rightarrow>
               (case (if extname reqPath = [] then loadCollection reqPath cfg else Inr None) of
                  Inl err \<Rightarrow> Inl err
                | Inr (Some collection) \<Rightarrow>
                    Inr (SR200 (cm_location collection) reqPath
                           (Some (case cm_currentPage collection of
                                    Some n \<Rightarrow> n
                                  | None \<Rightarrow> 1)))
                | Inr None \<Rightarrow>
                    Inr (if reqPath = ''/500'' then SR200 Frontend500 reqPath None
                         else SR404))))"

section \<open>Errors and results of the runtime\<close>

datatype error_kind = Kind_parse_error | Kind_ssr | Kind_not_found | Kind_unknown

type_synonym params = "(string \<times> string) list"

text \<open>
  What \<^verbatim>\<open>data()\<close> resolves to: a falsy value, a truthy value that is not an array, or an
  array.
\<close>

datatype 'a loaded = Falsy | NotArray 'a | Array "'a list"

text \<open>A page size: an integer or \<^verbatim>\<open>Infinity\<close>.\<close>

datatype page_size = Finite int | Infinity

text \<open>
  The object \<^verbatim>\<open>createCollection()\<close> resolves to: its keys in the order of
  \<^verbatim>\<open>Object.keys\<close>, and the five properties the runtime destructures. \<open>None\<close> is a
  property that is missing or falsy, but for \<^verbatim>\<open>pageSize\<close>, whose falsy number is
  \<open>Some (Finite 0)\<close>.
\<close>

record ('a, 'r) create_collection =
  cc_keys :: "string list"
  cc_data :: "(params \<Rightarrow> js_error + 'a loaded) option"
  cc_routes :: "params list option"
  cc_permalink :: "(params \<Rightarrow> js_error + string) option"
  cc_pageSize :: "page_size option"
  cc_rss :: "'r option"

text \<open>The \<^verbatim>\<open>collection\<close> object handed to the page as a prop.\<close>

record 'a collection_result =
  c_params :: "params option"
  c_start :: int
  c_end :: int
  c_total :: int
  pg_current :: int
  pg_size :: page_size
  pg_last :: int
  url_current :: string
  url_next :: "string option"
  url_prev :: "string option"
  c_data :: "'a list"

text \<open>
  \<^verbatim>\<open>collectionInfo\<close>: the set of additional URLs in insertion order, and the feed (its
  metadata with the whole dataset) when one is declared.
\<close>

record ('a, 'r) collection_info =
  additionalURLs :: "string list"
  rss :: "('r \<times> 'a list) option"

datatype ('a, 'r) load_result =
    LR200 string string "('a, 'r) collection_info option"
  | LR301 string "('a, 'r) collection_info option"
  | LR404 js_error "('a, 'r) collection_info option"
  | LR500 error_kind js_error

fun statusCode :: "('a, 'r) load_result \<Rightarrow> nat" where
  "statusCode (LR200 contents contentType info) = 200"
| "statusCode (LR301 loc info) = 301"
| "statusCode (LR404 err info) = 404"
| "statusCode (LR500 kind err) = 500"

text \<open>What the page receives: the path and query of the request URL, the props, the styles.\<close>

record 'a render_ctx =
  ctx_pathname :: string
  ctx_search :: string
  ctx_collection :: "'a collection_result option"
  ctx_css :: "string list"

datatype css_export = CssArray "string list" | CssString string | CssOther

text \<open>
  A loaded page module: \<^verbatim>\<open>createCollection\<close> when it exports one (\<open>Inl\<close> when calling
  it throws), \<^verbatim>\<open>__renderPage\<close> and \<^verbatim>\<open>css\<close>.
\<close>

record ('a, 'r) page_module =
  m_createCollection :: "(js_error + ('a, 'r) create_collection) option"
  m_renderPage :: "'a render_ctx \<Rightarrow> js_error + string"
  m_css :: css_export

text \<open>The calls \<^verbatim>\<open>load\<close> makes to its collaborators, in order, with what it hands them.\<close>

datatype 'a event =
    StaticProbe string
  | InternalLoad string
  | Resolve string
  | Transform string
  | LoadModule location
  | LoadData params
  | RenderPage "'a render_ctx"

datatype transform_result = TNull | TString string | TCode string

text \<open>
  The collaborators of \<^verbatim>\<open>load\<close>. \<open>ASTRO_FRONTEND\<close> is the constant of
  \<^verbatim>\<open>internal.js\<close>; \<open>compileError\<close> stands for lines 243 to 272, which build the
  \<^verbatim>\<open>CompileError\<close> of a missing import from the raw path and the error with
  \<^verbatim>\<open>getSrcPath\<close> and a file read (\<open>Inl\<close> when that throws).
\<close>

record ('a, 'r) runtime_config =
  astroConfig :: astro_config
  ASTRO_FRONTEND :: string
  loadStaticFile :: "string \<Rightarrow> js_error + ('a, 'r) load_result"
  loadInternalFile :: "string \<Rightarrow> js_error + ('a, 'r) load_result"
  transformRequest :: "string \<Rightarrow> js_error + transform_result"
  mime_getType :: "string \<Rightarrow> string option"
  ssrLoadModule :: "location \<Rightarrow> js_error + ('a, 'r) page_module"
  compileError :: "string \<Rightarrow> js_error \<Rightarrow> js_error + js_error"

text \<open>
  A request: \<^verbatim>\<open>rawPathname\<close> as \<^verbatim>\<open>load\<close> receives it, and of the URL built from it
  the path as the URL has it (percent-encoded), the decoded path
  \<^verbatim>\<open>decodeURI(fullurl.pathname)\<close> and the query.
\<close>

record request =
  raw_pathname :: "string option"
  url_pathname :: string
  req_path :: string
  req_search :: string

section \<open>The collection data engine\<close>

definition VALID_KEYS :: "string list" where
  "VALID_KEYS = [''data'', ''routes'', ''permalink'', ''pageSize'', ''rss'']"

fun join :: "string \<Rightarrow> string list \<Rightarrow> string" where
  "join sep [] = []"
| "join sep [x] = x"
| "join sep (x # y # ys) = x @ sep @ join sep (y # ys)"

definition unknown_option :: "string \<Rightarrow> js_error" where
  "unknown_option key =
     mk_error (''[createCollection] unknown option: '' @ [CHR 0x22] @ key @ [CHR 0x22]
               @ ''. Expected one of '' @ join '', '' VALID_KEYS @ ''.'')"

text \<open>Lines 87 to 91.\<close>

fun check_keys :: "string list \<Rightarrow> js_error option" where
  "check_keys [] = None"
| "check_keys (key # keys) =
     (if key \<in> set VALID_KEYS then check_keys keys else Some (unknown_option key))"

definition must_return_data :: js_error where
  "must_return_data =
     mk_error (''[createCollection] must return '' @ [CHR 0x60] @ ''data()'' @ [CHR 0x60]
               @ '' function to create a collection.'')"

definition permalink_requires_routes :: js_error where
  "permalink_requires_routes =
     mk_error (''[createCollection] '' @ [CHR 0x60] @ ''permalink'' @ [CHR 0x60]
               @ '' requires '' @ [CHR 0x60] @ ''routes'' @ [CHR 0x60] @ '' as well.'')"

definition routes_requires_permalink :: js_error where
  "routes_requires_permalink =
     mk_error (''[createCollection] '' @ [CHR 0x60] @ ''routes'' @ [CHR 0x60]
               @ '' requires '' @ [CHR 0x60] @ ''permalink'' @ [CHR 0x60] @ '' as well.'')"

definition returned_nothing :: js_error where
  "returned_nothing =
     mk_error (''[createCollection] '' @ [CHR 0x60] @ ''data()'' @ [CHR 0x60]
               @ '' returned nothing (empty data)'' @ [CHR 0x22])"

text \<open>\<^verbatim>\<open>if (!pageSize) pageSize = 25\<close>, and the test \<^verbatim>\<open>createCollection.pageSize\<close> of line 164.\<close>

definition pageSize_declared :: "page_size option \<Rightarrow> bool" where
  "pageSize_declared ps = (ps \<noteq> None \<and> ps \<noteq> Some (Finite 0))"

definition effective_pageSize :: "page_size option \<Rightarrow> page_size" where
  "effective_pageSize ps =
     (case ps of
        None \<Rightarrow> Finite 25
      | Some Infinity \<Rightarrow> Infinity
      | Some (Finite n) \<Rightarrow> if n = 0 then Finite 25 else Finite n)"

text \<open>A \<^verbatim>\<open>Set\<close> of strings keeps the order of insertion.\<close>

definition set_add :: "string list \<Rightarrow> string \<Rightarrow> string list" where
  "set_add urls u = (if u \<in> set urls then urls else urls @ [u])"

text \<open>\<^verbatim>\<open>searchResult.currentPage || 1\<close>\<close>

definition page_or_1 :: "int option \<Rightarrow> int" where
  "page_or_1 currentPage = (case currentPage of None \<Rightarrow> 1 | Some n \<Rightarrow> if n = 0 then 1 else n)"

text \<open>
  Lines 102 to 106, \<^verbatim>\<open>routes.find\<close>: the permalink of each route is added to the set,
  up to the first route whose permalink is the request path, with or without the page
  number.
\<close>

fun find_route ::
  "(params \<Rightarrow> js_error + string) \<Rightarrow> string \<Rightarrow> int option \<Rightarrow> params list \<Rightarrow> string list
     \<Rightarrow> js_error + (params option \<times> string list)" where
  "find_route permalink reqPath currentPage [] urls = Inr (None, urls)"
| "find_route permalink reqPath currentPage (p # ps) urls =
     (case permalink p of
        Inl e \<Rightarrow> Inl e
      | Inr baseURL \<Rightarrow>
          if baseURL = reqPath
             \<or> baseURL @ ''/'' @ show_int (page_or_1 currentPage) = reqPath
          then Inr (Some p, set_add urls baseURL)
          else find_route permalink reqPath currentPage ps (set_add urls baseURL))"

text \<open>Lines 98 to 111.\<close>

definition resolve_params ::
  "params list option \<Rightarrow> (params \<Rightarrow> js_error + string) option \<Rightarrow> string \<Rightarrow> int option
     \<Rightarrow> js_error + (params option \<times> string list)" where
  "resolve_params routes permalink reqPath currentPage =
     (case routes of
        None \<Rightarrow>
          (case permalink of None \<Rightarrow> Inr (None, []) | Some pl \<Rightarrow> Inl permalink_requires_routes)
      | Some rs \<Rightarrow>
          (case permalink of
             None \<Rightarrow> Inl routes_requires_permalink
           | Some pl \<Rightarrow> find_route pl reqPath currentPage rs []))"

text \<open>
  \<^verbatim>\<open>Array.prototype.slice(start, end)\<close>: a negative bound counts from the end of the
  array.
\<close>

definition js_slice :: "'a list \<Rightarrow> int \<Rightarrow> int \<Rightarrow> 'a list" where
  "js_slice xs start fin =
     (let len = int (length xs);
          k = (if start < 0 then max (len + start) 0 else min start len);
          e = (if fin < 0 then max (len + fin) 0 else min fin len)
      in take (nat (e - k)) (drop (nat k) xs))"

text \<open>Lines 133, 134 and 139; the page size is never 0 there.\<close>

definition page_start :: "page_size \<Rightarrow> int \<Rightarrow> int" where
  "page_start pageSize currentPage =
     (case pageSize of Infinity \<Rightarrow> 0 | Finite n \<Rightarrow> (currentPage - 1) * n)"

definition page_end :: "page_size \<Rightarrow> int \<Rightarrow> int \<Rightarrow> int" where
  "page_end pageSize start len =
     (case pageSize of Infinity \<Rightarrow> len | Finite n \<Rightarrow> min (start + n) len)"

definition page_count :: "page_size \<Rightarrow> int \<Rightarrow> int" where
  "page_count pageSize len =
     (case pageSize of Infinity \<Rightarrow> 0 | Finite n \<Rightarrow> - ((- len) div n))"

text \<open>
  \<^verbatim>\<open>url.replace(/(\/\d+)?$/, `/${n}`)\<close>: the leftmost match is a final \<^verbatim>\<open>/digits\<close> when
  the string ends in one, the end of the string otherwise.
\<close>

fun strip_page_suffix :: "string \<Rightarrow> string" where
  "strip_page_suffix [] = []"
| "strip_page_suffix (c # cs) =
     (if c = CHR ''/'' \<and> all_digits cs then [] else c # strip_page_suffix cs)"

definition page_url :: "string \<Rightarrow> string \<Rightarrow> string" where
  "page_url url n = strip_page_suffix url @ CHR ''/'' # n"

text \<open>\<^verbatim>\<open>url.replace(/\d+$/, n)\<close>\<close>

fun replace_trailing_digits :: "string \<Rightarrow> string \<Rightarrow> string" where
  "replace_trailing_digits [] n = []"
| "replace_trailing_digits (c # cs) n =
     (if all_digits (c # cs) then n else c # replace_trailing_digits cs n)"

text \<open>\<^verbatim>\<open>url.replace(/\/1$/, '')\<close>\<close>

definition strip_slash_one :: "string \<Rightarrow> string" where
  "strip_slash_one url = (if endsWith url ''/1'' then take (length url - 2) url else url)"

subsection \<open>The walk over the set of additional URLs\<close>

text \<open>
  \<^verbatim>\<open>additionalURLs.forEach\<close> visits the entries in insertion order, those added during the
  walk too. It ends because a URL that was added ends in the page number and is its own
  replacement.
\<close>

lemma is_digit_digit_char: "d < 10 \<Longrightarrow> is_digit (digit_char d)"
proof -
  assume "d < 10"
  then have "d \<in> {0, 1, 2, 3, 4, 5, 6, 7, 8, 9}" by auto
  then show ?thesis
    by (auto simp: is_digit_def digit_char_def)
qed

lemma all_digits_show_nat: "all_digits (show_nat n)"
proof (induction n rule: show_nat.induct)
  case (1 n)
  show ?case
  proof (cases "n < 10")
    case True
    then show ?thesis
      by (simp add: show_nat.simps [of n] all_digits_def is_digit_digit_char)
  next
    case False
    then have "all_digits (show_nat (n div 10))" using 1 by simp
    moreover have "is_digit (digit_char (n mod 10))" by (simp add: is_digit_digit_char)
    ultimately show ?thesis using False
      by (simp add: show_nat.simps [of n] all_digits_def)
  qed
qed

lemma not_digit_slash: "\<not> is_digit CHR ''/''"
  by (simp add: is_digit_def)

lemma all_digits_no_slash: "all_digits (a @ CHR ''/'' # b) = False"
  by (simp add: all_digits_def not_digit_slash)

lemma strip_page_suffix_append:
  "all_digits ds \<Longrightarrow> strip_page_suffix (p @ CHR ''/'' # ds) = p"
  by (induction p) (auto simp: all_digits_no_slash)

lemma page_url_idem:
  "all_digits n \<Longrightarrow> page_url (page_url u n) n = page_url u n"
  by (simp add: page_url_def strip_page_suffix_append)

definition pending :: "nat \<Rightarrow> string list \<Rightarrow> nat \<Rightarrow> string set" where
  "pending n urls i = {u \<in> set (drop i urls). page_url u (show_nat n) \<notin> set urls}"

lemma finite_pending: "finite (pending n urls i)"
  by (simp add: pending_def)

lemma set_drop_Suc_subset: "set (drop (Suc i) urls) \<subseteq> set (drop i urls)"
  by (metis set_drop_subset drop_drop plus_1_eq_Suc)

lemma pending_keep: "card (pending n urls (Suc i)) \<le> card (pending n urls i)"
proof -
  have "pending n urls (Suc i) \<subseteq> pending n urls i"
    using set_drop_Suc_subset [of i urls] by (auto simp: pending_def)
  then show ?thesis by (simp add: card_mono finite_pending)
qed

lemma pending_add:
  assumes i: "i < length urls" and v: "page_url (urls ! i) (show_nat n) \<notin> set urls"
  shows "card (pending n (urls @ [page_url (urls ! i) (show_nat n)]) (Suc i))
           < card (pending n urls i)"
proof -
  let ?v = "page_url (urls ! i) (show_nat n)"
  have idem: "page_url ?v (show_nat n) = ?v"
    by (simp add: page_url_idem all_digits_show_nat)
  have mem: "urls ! i \<in> set (drop i urls)"
    using i by (metis Cons_nth_drop_Suc list.set_intros(1))
  have "pending n (urls @ [?v]) (Suc i) \<subseteq> pending n urls i"
    using i set_drop_Suc_subset [of i urls] idem by (auto simp: pending_def)
  moreover have "urls ! i \<in> pending n urls i"
    using mem v by (simp add: pending_def)
  moreover have "urls ! i \<notin> pending n (urls @ [?v]) (Suc i)"
    by (simp add: pending_def)
  ultimately have "pending n (urls @ [?v]) (Suc i) \<subset> pending n urls i" by blast
  then show ?thesis by (simp add: psubset_card_mono finite_pending)
qed

text \<open>Lines 154 to 156, from the entry at index \<open>i\<close> on.\<close>

function forEach_pages :: "nat \<Rightarrow> string list \<Rightarrow> nat \<Rightarrow> string list" where
  "forEach_pages n urls i =
     (if i < length urls
      then forEach_pages n (set_add urls (page_url (urls ! i) (show_nat n))) (Suc i)
      else urls)"
  by pat_completeness auto
termination
proof (relation "measure (\<lambda>(n, urls, i). (length urls - i) + card (pending n urls i))")
  show "wf (measure (\<lambda>(n, urls, i). (length urls - i) + card (pending n urls i)))"
    by simp
next
  fix n :: nat and urls :: "string list" and i :: nat
  assume i: "i < length urls"
  show "((n, set_add urls (page_url (urls ! i) (show_nat n)), Suc i), (n, urls, i))
          \<in> measure (\<lambda>(n, urls, i). (length urls - i) + card (pending n urls i))"
  proof (cases "page_url (urls ! i) (show_nat n) \<in> set urls")
    case True
    then show ?thesis using i pending_keep [of n urls i] by (simp add: set_add_def)
  next
    case False
    then show ?thesis using i pending_add [OF i False] by (simp add: set_add_def)
  qed
qed

declare forEach_pages.simps [simp del]

text \<open>
  Lines 151 to 161: the loop over the page numbers, from \<open>n\<close> on, \<open>k\<close> numbers to go.
\<close>

fun add_pages :: "string \<Rightarrow> nat \<Rightarrow> nat \<Rightarrow> string list \<Rightarrow> string list" where
  "add_pages reqPath n 0 urls = urls"
| "add_pages reqPath n (Suc k) urls =
     add_pages reqPath (Suc n) k
       (if urls \<noteq> [] then forEach_pages n urls 0
        else set_add urls (page_url reqPath (show_nat n)))"

subsection \<open>Pagination\<close>

text \<open>Lines 125 to 129: the collection of a request with no page number.\<close>

definition unpaginated ::
  "page_size \<Rightarrow> string \<Rightarrow> params option \<Rightarrow> 'a list \<Rightarrow> 'a collection_result" where
  "unpaginated pageSize reqPath ps dat =
     \<lparr>c_params = ps, c_start = 0, c_end = int (length dat) - 1, c_total = int (length dat),
      pg_current = 1, pg_size = pageSize, pg_last = 1,
      url_current = reqPath, url_next = None, url_prev = None, c_data = dat\<rparr>"

text \<open>Lines 132 to 148 and 163: the collection of a request for page \<open>currentPage\<close>.\<close>

definition paginated ::
  "page_size \<Rightarrow> string \<Rightarrow> int \<Rightarrow> params option \<Rightarrow> 'a list \<Rightarrow> 'a collection_result" where
  "paginated pageSize reqPath currentPage ps dat =
     (let len = int (length dat);
          start = page_start pageSize currentPage;
          fin = page_end pageSize start len
      in \<lparr>c_params = ps, c_start = start, c_end = fin - 1, c_total = len,
          pg_current = currentPage, pg_size = pageSize, pg_last = page_count pageSize len,
          url_current = reqPath,
          url_next =
            (if fin < len then Some (page_url reqPath (show_int (currentPage + 1))) else None),
          url_prev =
            (if currentPage > 1
             then Some (strip_slash_one
                          (replace_trailing_digits reqPath
                             (show_int (if currentPage - 1 = 0 then 1 else currentPage - 1))))
             else None),
          c_data = js_slice dat start fin\<rparr>)"

text \<open>
  Lines 125 to 175. \<open>Inl\<close> is the redirect of line 167 with its target; \<open>Inr\<close> is the
  collection, with the data as sliced, and the set of additional URLs.
\<close>

definition paginate ::
  "bool \<Rightarrow> page_size \<Rightarrow> string \<Rightarrow> int option \<Rightarrow> params option \<Rightarrow> string list \<Rightarrow> 'a list
     \<Rightarrow> string + ('a collection_result \<times> string list)" where
  "paginate declared pageSize reqPath currentPage ps urls dat =
     (let no_page =
            (if declared then Inl (reqPath @ ''/1'')
             else Inr (unpaginated pageSize reqPath ps dat, urls))
      in case currentPage of
           None \<Rightarrow> no_page
         | Some p \<Rightarrow>
             if p = 0 then no_page
             else (let st = paginated pageSize reqPath p ps dat
                   in Inr (st, add_pages reqPath 1 (nat (pg_last st)) urls)))"

datatype ('a, 'r) engine_outcome =
    Collection "'a collection_result" "('a, 'r) collection_info"
  | RedirectPage1 string "('a, 'r) collection_info"
  | Empty404 "('a, 'r) collection_info"

text \<open>Lines 117 to 190, from the dataset on.\<close>

definition collection_pages ::
  "('a, 'r) create_collection \<Rightarrow> string \<Rightarrow> int option \<Rightarrow> params option \<Rightarrow> string list
     \<Rightarrow> 'a list \<Rightarrow> ('a, 'r) engine_outcome" where
  "collection_pages cc reqPath currentPage ps urls dat =
     (let feed = (case cc_rss cc of None \<Rightarrow> None | Some createRSS \<Rightarrow> Some (createRSS, dat))
      in case paginate (pageSize_declared (cc_pageSize cc)) (effective_pageSize (cc_pageSize cc))
                reqPath currentPage ps urls dat of
           Inl target \<Rightarrow> RedirectPage1 target \<lparr>additionalURLs = urls, rss = feed\<rparr>
         | Inr (st, urls') \<Rightarrow>
             if c_data st = [] then Empty404 \<lparr>additionalURLs = urls', rss = feed\<rparr>
             else Collection st \<lparr>additionalURLs = urls', rss = feed\<rparr>)"

text \<open>Lines 114 and 115.\<close>

definition to_array :: "'a loaded \<Rightarrow> 'a list option" where
  "to_array v = (case v of Falsy \<Rightarrow> None | NotArray x \<Rightarrow> Some [x] | Array xs \<Rightarrow> Some xs)"

text \<open>
  Lines 85 to 190, from the object \<^verbatim>\<open>createCollection()\<close> resolved to: the calls made
  to \<^verbatim>\<open>data()\<close>, and the error thrown or the outcome.
\<close>

definition collection_engine ::
  "('a, 'r) create_collection \<Rightarrow> string \<Rightarrow> int option
     \<Rightarrow> 'a event list \<times> (js_error + ('a, 'r) engine_outcome)" where
  "collection_engine cc reqPath currentPage =
     (case check_keys (cc_keys cc) of
        Some e \<Rightarrow> ([], Inl e)
      | None \<Rightarrow>
          (case cc_data cc of
             None \<Rightarrow> ([], Inl must_return_data)
           | Some loadData \<Rightarrow>
               (case resolve_params (cc_routes cc) (cc_permalink cc) reqPath currentPage of
                  Inl e \<Rightarrow> ([], Inl e)
                | Inr (requestedParams, urls) \<Rightarrow>
                    (let currentParams = (case requestedParams of None \<Rightarrow> [] | Some p \<Rightarrow> p)
                     in ([LoadData currentParams],
                         case loadData currentParams of
                           Inl e \<Rightarrow> Inl e
                         | Inr v \<Rightarrow>
                             (case to_array v of
                                None \<Rightarrow> Inl returned_nothing
                              | Some dat \<Rightarrow>
                                  Inr (collection_pages cc reqPath currentPage
                                         requestedParams urls dat)))))))"

section \<open>The request dispatcher\<close>

definition ssr_guidance :: "string \<Rightarrow> string" where
  "ssr_guidance reqPath =
     ''['' @ reqPath @ '']'' @ [CHR 0x0A]
     @ ''    The window object is not available during server-side rendering (SSR).'' @ [CHR 0x0A]
     @ ''    Try using '' @ [CHR 0x60] @ ''import.meta.env.SSR'' @ [CHR 0x60]
     @ '' to write SSR-friendly code.'' @ [CHR 0x0A]
     @ ''    https://docs.astro.build/reference/api-reference/#importmeta''"

text \<open>Lines 220 to 280: the \<^verbatim>\<open>catch\<close> block.\<close>

definition catch_error ::
  "('a, 'r) runtime_config \<Rightarrow> request \<Rightarrow> string \<Rightarrow> js_error \<Rightarrow> js_error + ('a, 'r) load_result" where
  "catch_error cfg req reqPath err =
     (if e_code err = Some ''parse-error'' \<or> e_class err = SyntaxError
      then Inr (LR500 Kind_parse_error err)
      else if e_class err = ReferenceError \<and> str_includes (e_text err) ''window is not defined''
      then Inr (LR500 Kind_ssr (mk_error (ssr_guidance reqPath)))
      else (case (if e_class err = NotFoundError then raw_pathname req else None) of
              None \<Rightarrow> Inr (LR500 Kind_unknown err)
            | Some rawPathname \<Rightarrow>
                if rawPathname = [] then Inr (LR500 Kind_unknown err)
                else (case compileError cfg rawPathname err of
                        Inl e \<Rightarrow> Inl e
                      | Inr ce \<Rightarrow> Inr (LR500 Kind_not_found ce))))"

definition css_list :: "css_export \<Rightarrow> string list" where
  "css_list css = (case css of CssArray xs \<Rightarrow> xs | CssString x \<Rightarrow> [x] | CssOther \<Rightarrow> [])"

text \<open>Lines 192 to 219, inside the \<^verbatim>\<open>try\<close>.\<close>

definition render_stage ::
  "('a, 'r) runtime_config \<Rightarrow> request \<Rightarrow> string \<Rightarrow> ('a, 'r) page_module
     \<Rightarrow> 'a collection_result option \<Rightarrow> ('a, 'r) collection_info
     \<Rightarrow> 'a event list \<times> (js_error + ('a, 'r) load_result)" where
  "render_stage cfg req reqPath m collection info =
     (let ctx = \<lparr>ctx_pathname = url_pathname req,
                 ctx_search = (if reqPath \<noteq> ''/500'' then [] else req_search req),
                 ctx_collection = collection,
                 ctx_css = css_list (m_css m)\<rparr>
      in ([RenderPage ctx],
          case m_renderPage m ctx of
            Inl e \<Rightarrow> catch_error cfg req reqPath e
          | Inr html \<Rightarrow> Inr (LR200 html ''text/html; charset=utf-8'' (Some info))))"

text \<open>Lines 74 to 280: what \<^verbatim>\<open>load\<close> does with a page the resolver found.\<close>

definition load_page ::
  "('a, 'r) runtime_config \<Rightarrow> request \<Rightarrow> string \<Rightarrow> location \<Rightarrow> int option
     \<Rightarrow> 'a event list \<times> (js_error + ('a, 'r) load_result)" where
  "load_page cfg req reqPath loc currentPage =
     (case ssrLoadModule cfg loc of
        Inl e \<Rightarrow> ([LoadModule loc], catch_error cfg req reqPath e)
      | Inr m \<Rightarrow>
          (case m_createCollection m of
             None \<Rightarrow>
               (case render_stage cfg req reqPath m None \<lparr>additionalURLs = [], rss = None\<rparr> of
                  (evs, r) \<Rightarrow> (LoadModule loc # evs, r))
           | Some (Inl e) \<Rightarrow> ([LoadModule loc], catch_error cfg req reqPath e)
           | Some (Inr cc) \<Rightarrow>
               (case collection_engine cc reqPath currentPage of
                  (evs, Inl e) \<Rightarrow> (LoadModule loc # evs, catch_error cfg req reqPath e)
                | (evs, Inr (RedirectPage1 target info)) \<Rightarrow>
                    (LoadModule loc # evs, Inr (LR301 target (Some info)))
                | (evs, Inr (Empty404 info)) \<Rightarrow>
                    (LoadModule loc # evs, Inr (LR404 (mk_error ''Not Found'') (Some info)))
                | (evs, Inr (Collection st info)) \<Rightarrow>
                    (case render_stage cfg req reqPath m (Some st) info of
                       (evs', r) \<Rightarrow> (LoadModule loc # evs @ evs', r)))))"

text \<open>Lines 50 to 67: the bundler's transform of a path that is no page.\<close>

definition transform_failure :: "js_error \<Rightarrow> ('a, 'r) load_result" where
  "transform_failure err = (if e_failed err then LR500 Kind_unknown err else LR404 err None)"

definition load_transform :: "('a, 'r) runtime_config \<Rightarrow> string \<Rightarrow> ('a, 'r) load_result" where
  "load_transform cfg reqPath =
     (let contentType =
            (case mime_getType cfg reqPath of
               None \<Rightarrow> ''text/plain''
             | Some t \<Rightarrow> if t = [] then ''text/plain'' else t);
          unable = transform_failure (mk_error (''Unable to load '' @ reqPath))
      in case transformRequest cfg reqPath of
           Inl err \<Rightarrow> transform_failure err
         | Inr TNull \<Rightarrow> unable
         | Inr (TString contents) \<Rightarrow>
             if contents = [] then unable else LR200 contents contentType None
         | Inr (TCode code) \<Rightarrow> LR200 code contentType None)"

text \<open>Lines 35 to 40: the result of the static server counts when its status is 200.\<close>

definition static_hit :: "js_error + ('a, 'r) load_result \<Rightarrow> ('a, 'r) load_result option" where
  "static_hit r =
     (case r of
        Inl err \<Rightarrow> None
      | Inr result \<Rightarrow> if statusCode result = 200 then Some result else None)"

text \<open>
  \<^verbatim>\<open>load\<close>: the calls made to the collaborators, and the result, or \<open>Inl\<close> when the
  promise is rejected (the internal file loader and the page resolver are called outside
  the \<^verbatim>\<open>try\<close>).
\<close>

definition load ::
  "('a, 'r) runtime_config \<Rightarrow> request \<Rightarrow> 'a event list \<times> (js_error + ('a, 'r) load_result)" where
  "load cfg req =
     (let reqPath = (if endsWith (req_path req) ''/'' then req_path req @ ''index.html''
                     else req_path req)
      in case static_hit (loadStaticFile cfg reqPath) of
           Some result \<Rightarrow> ([StaticProbe reqPath], Inr result)
         | None \<Rightarrow>
             if startsWith reqPath (ASTRO_FRONTEND cfg)
             then ([StaticProbe reqPath, InternalLoad reqPath], loadInternalFile cfg reqPath)
             else (case searchForPage (req_path req) (astroConfig cfg) of
                     Inl err \<Rightarrow> ([StaticProbe reqPath, Resolve (req_path req)], Inl err)
                   | Inr SR404 \<Rightarrow>
                       ([StaticProbe reqPath, Resolve (req_path req), Transform reqPath],
                        Inr (load_transform cfg reqPath))
                   | Inr (SR301 pathname) \<Rightarrow>
                       ([StaticProbe reqPath, Resolve (req_path req)],
                        Inr (LR301 pathname None))
                   | Inr (SR200 loc pathname currentPage) \<Rightarrow>
                       (case load_page cfg req reqPath loc currentPage of
                          (evs, r) \<Rightarrow>
                            (StaticProbe reqPath # Resolve (req_path req) # evs, r))))"

text \<open>The collection handed to the page, read off the calls \<^verbatim>\<open>load\<close> made.\<close>

fun rendered_collection :: "'a event list \<Rightarrow> 'a collection_result option" where
  "rendered_collection [] = None"
| "rendered_collection (RenderPage ctx # evs) = ctx_collection ctx"
| "rendered_collection (e # evs) = rendered_collection evs"

section \<open>Example sites\<close>

text \<open>
  The characters with a meaning of their own in a regular expression, and the engine on
  the sources that the collection matcher builds from a text without any of them: such a
  text, as a regular expression, matches itself, so the source matches a URL that starts
  with a slash and the text and then either ends or goes on with a slash and a rest, of
  which group 1 takes all up to a line terminator. The names of the example pages
  give such texts. On any other source \<open>literal_regexp\<close> is not the engine of the
  runtime (it answers with a \<^verbatim>\<open>SyntaxError\<close>, as the runtime does for some of them only);
  no example reaches it there.
\<close>

definition regex_literal :: "string \<Rightarrow> bool" where
  "regex_literal p = list_all (\<lambda>c. c \<notin> set (CHR 0x5C # ''^$.|?*+()[]{}'')) p"

definition reqURL_match :: "string \<Rightarrow> string \<Rightarrow> string option option" where
  "reqURL_match pat url =
     (if startsWith url (CHR ''/'' # pat) then
        (case drop (Suc (length pat)) url of
           [] \<Rightarrow> Some None
         | c # r \<Rightarrow>
             if c = CHR ''/'' then Some (Some (takeWhile (\<lambda>x. \<not> line_terminator x) r))
             else None)
      else None)"

definition invalid_regexp :: js_error where
  "invalid_regexp =
     \<lparr>e_class = SyntaxError, e_code = None, e_failed = False,
      e_text = ''SyntaxError: Invalid regular expression''\<rparr>"

definition literal_regexp :: "string \<Rightarrow> string \<Rightarrow> js_error + string option option" where
  "literal_regexp source url =
     (let pat = take (length source - 15) (drop 2 source)
      in if source = reqURL_source pat \<and> regex_literal pat then Inr (reqURL_match pat url)
         else Inl invalid_regexp)"

definition no_files :: "string list \<Rightarrow> bool" where
  "no_files segs = False"

text \<open>A pages directory that holds the one collection page \<^verbatim>\<open>$tag.astro\<close>.\<close>

definition tag_site :: astro_config where
  "tag_site =
     \<lparr>pages_exists = no_files, pages_glob = [''$tag.astro''], regexp_match = literal_regexp\<rparr>"

definition dotted_files :: "string list \<Rightarrow> bool" where
  "dotted_files segs = (segs = [''a.b'', ''index.astro''])"

text \<open>A pages directory that holds the one page \<^verbatim>\<open>a.b/index.astro\<close>.\<close>

definition dotted_site :: astro_config where
  "dotted_site =
     \<lparr>pages_exists = dotted_files, pages_glob = [], regexp_match = literal_regexp\<rparr>"

definition posts_site :: astro_config where
  "posts_site =
     \<lparr>pages_exists = no_files, pages_glob = [''$posts.astro''],
      regexp_match = literal_regexp\<rparr>"

text \<open>A dataset of 25 records.\<close>

definition posts25 :: "nat list" where
  "posts25 = [1, 2, 3, 4, 5, 6, 7, 8, 9, 10, 11, 12, 13, 14, 15, 16, 17, 18, 19, 20,
              21, 22, 23, 24, 25]"

definition load_posts25 :: "params \<Rightarrow> js_error + nat loaded" where
  "load_posts25 ps = Inr (Array posts25)"

text \<open>
  A collection that declares \<^verbatim>\<open>data\<close> and \<^verbatim>\<open>pageSize: 10\<close>, and one with the unknown key
  \<^verbatim>\<open>foo\<close> besides.
\<close>

definition posts_collection :: "(nat, string) create_collection" where
  "posts_collection =
     \<lparr>cc_keys = [''data'', ''pageSize''], cc_data = Some load_posts25, cc_routes = None,
      cc_permalink = None, cc_pageSize = Some (Finite 10), cc_rss = None\<rparr>"

definition foo_collection :: "(nat, string) create_collection" where
  "foo_collection = posts_collection\<lparr>cc_keys := [''data'', ''foo'', ''pageSize'']\<rparr>"

definition render_ok :: "nat render_ctx \<Rightarrow> js_error + string" where
  "render_ok ctx = Inr ''<html></html>''"

definition posts_module :: "(nat, string) page_module" where
  "posts_module =
     \<lparr>m_createCollection = Some (Inr posts_collection), m_renderPage = render_ok,
      m_css = CssOther\<rparr>"

definition foo_module :: "(nat, string) page_module" where
  "foo_module = posts_module\<lparr>m_createCollection := Some (Inr foo_collection)\<rparr>"

definition window_error :: js_error where
  "window_error =
     \<lparr>e_class = ReferenceError, e_code = None, e_failed = False,
      e_text = ''ReferenceError: window is not defined''\<rparr>"

definition render_window :: "nat render_ctx \<Rightarrow> js_error + string" where
  "render_window ctx = Inl window_error"

definition window_module :: "(nat, string) page_module" where
  "window_module =
     \<lparr>m_createCollection = None, m_renderPage = render_window, m_css = CssOther\<rparr>"

text \<open>Collaborators that find nothing, and a module loader that returns a given module.\<close>

definition static_none :: "string \<Rightarrow> js_error + (nat, string) load_result" where
  "static_none p = Inl (mk_error ''Not Found'')"

definition transform_none :: "string \<Rightarrow> js_error + transform_result" where
  "transform_none p = Inr TNull"

definition mime_none :: "string \<Rightarrow> string option" where
  "mime_none p = None"

definition compile_none :: "string \<Rightarrow> js_error \<Rightarrow> js_error + js_error" where
  "compile_none raw err = Inr err"

definition runtime_of ::
  "astro_config \<Rightarrow> (nat, string) page_module \<Rightarrow> (nat, string) runtime_config" where
  "runtime_of site m =
     \<lparr>astroConfig = site, ASTRO_FRONTEND = ''/_astro_frontend/'',
      loadStaticFile = static_none, loadInternalFile = static_none,
      transformRequest = transform_none, mime_getType = mime_none,
      ssrLoadModule = (\<lambda>loc. Inr m), compileError = compile_none\<rparr>"

definition request_of :: "string \<Rightarrow> request" where
  "request_of p = \<lparr>raw_pathname = Some p, url_pathname = p, req_path = p, req_search = []\<rparr>"

text \<open>
  A static server that holds \<^verbatim>\<open>/docs/index.html\<close> alone, one that holds an entry under
  \<^verbatim>\<open>/posts/2/\<close> alone, an internal file loader and a bundler that know one path each, and
  a runtime with these.
\<close>

definition static_docs :: "string \<Rightarrow> js_error + (nat, string) load_result" where
  "static_docs p =
     (if p = ''/docs/index.html'' then Inr (LR200 ''<p>docs</p>'' ''text/html'' None)
      else Inl (mk_error ''Not Found''))"

definition static_dir :: "string \<Rightarrow> js_error + (nat, string) load_result" where
  "static_dir p =
     (if p = ''/posts/2/'' then Inr (LR200 ''<p>dir</p>'' ''text/html'' None)
      else Inl (mk_error ''Not Found''))"

definition internal_index :: "string \<Rightarrow> js_error + (nat, string) load_result" where
  "internal_index p =
     (if p = ''/_astro_frontend/index.html''
      then Inr (LR200 ''<p>internal</p>'' ''text/html'' None)
      else Inl (mk_error ''Not Found''))"

definition transform_other :: "string \<Rightarrow> js_error + transform_result" where
  "transform_other p = (if p = ''/other/index.html'' then Inr (TCode ''export {}'') else Inr TNull)"

definition lookup_runtime :: "(nat, string) runtime_config" where
  "lookup_runtime =
     \<lparr>astroConfig = posts_site, ASTRO_FRONTEND = ''/_astro_frontend/'',
      loadStaticFile = static_docs, loadInternalFile = internal_index,
      transformRequest = transform_other, mime_getType = mime_none,
      ssrLoadModule = (\<lambda>loc. Inr posts_module), compileError = compile_none\<rparr>"

text \<open>A pages directory that holds the one page \<^verbatim>\<open>blog/index.astro\<close>.\<close>

definition blog_files :: "string list \<Rightarrow> bool" where
  "blog_files segs = (segs = [''blog'', ''index.astro''])"

definition blog_site :: astro_config where
  "blog_site =
     \<lparr>pages_exists = blog_files, pages_glob = [], regexp_match = literal_regexp\<rparr>"

text \<open>The second page of the 25 records, ten to a page, and the side data of that collection.\<close>

definition page2_state :: "nat collection_result" where
  "page2_state =
     \<lparr>c_params = None, c_start = 10, c_end = 19, c_total = 25,
      pg_current = 2, pg_size = Finite 10, pg_last = 3,
      url_current = ''/posts/2'', url_next = Some ''/posts/3'', url_prev = Some ''/posts'',
      c_data = [11, 12, 13, 14, 15, 16, 17, 18, 19, 20]\<rparr>"

definition page4_state :: "nat collection_result" where
  "page4_state =
     \<lparr>c_params = None, c_start = 30, c_end = 24, c_total = 25,
      pg_current = 4, pg_size = Finite 10, pg_last = 3,
      url_current = ''/posts/4'', url_next = None, url_prev = Some ''/posts/3'',
      c_data = []\<rparr>"

definition posts_urls :: "string list" where
  "posts_urls = [''/posts/1'', ''/posts/2'', ''/posts/3'']"

definition posts_info :: "(nat, string) collection_info" where
  "posts_info = \<lparr>additionalURLs = posts_urls, rss = None\<rparr>"

text \<open>A \<^verbatim>\<open>ReferenceError\<close> that carries the code \<^verbatim>\<open>parse-error\<close>.\<close>

definition coded_window_error :: js_error where
  "coded_window_error = window_error\<lparr>e_code := Some ''parse-error''\<rparr>"



section \<open>Evaluation of the examples\<close>

lemma add_pages_unfold:
  "add_pages reqPath n k urls =
     (if k = 0 then urls
      else add_pages reqPath (Suc n) (k - 1)
             (if urls \<noteq> [] then forEach_pages n urls 0
              else set_add urls (page_url reqPath (show_nat n))))"
  by (cases k) simp_all

lemmas search_defs =
  searchForPage_def endsWith_def existsSync_def path_segments_def extname_def last_segment_def
  loadCollection_def reqURL_match_def reqURL_source_def literal_regexp_def regex_literal_def
  startsWith_def page_of_capture_def parseInt_def
  js_whitespace_def is_digit_def digits_value_def digit_val_def line_terminator_def Let_def
  tag_site_def posts_site_def dotted_site_def blog_site_def no_files_def dotted_files_def
  blog_files_def

lemmas engine_defs =
  collection_engine_def VALID_KEYS_def resolve_params_def to_array_def collection_pages_def
  paginate_def paginated_def unpaginated_def pageSize_declared_def effective_pageSize_def
  page_start_def page_end_def page_count_def js_slice_def page_url_def strip_slash_one_def
  show_int_def show_nat.simps digit_char_def all_digits_def set_add_def forEach_pages.simps
  add_pages_unfold is_digit_def endsWith_def Let_def
  posts_collection_def foo_collection_def load_posts25_def posts25_def
  page2_state_def page4_state_def posts_urls_def posts_info_def

lemmas load_defs =
  load_def load_page_def render_stage_def static_hit_def load_transform_def transform_failure_def
  catch_error_def css_list_def mk_error_def startsWith_def
  runtime_of_def request_of_def posts_module_def foo_module_def window_module_def
  render_ok_def render_window_def window_error_def coded_window_error_def static_none_def
  transform_none_def mime_none_def compile_none_def lookup_runtime_def static_docs_def
  static_dir_def internal_index_def transform_other_def

section \<open>The page resolver and the collection matcher\<close>












text \<open>
  Claim C2 says that the matcher of \<^verbatim>\<open>$tag.astro\<close> is a wildcard that accepts
  \<^verbatim>\<open>/javascript/2\<close> with page 2 and takes the parameter from \<^verbatim>\<open>javascript\<close>. It does
  not: the request \<^verbatim>\<open>/javascript/2\<close> matches no collection page of a pages directory
  that holds \<^verbatim>\<open>$tag.astro\<close> alone.
\<close>

theorem tag_page_ignores_javascript:
  "loadCollection ''/javascript/2'' tag_site = Inr None"
  by (simp add: search_defs)

text \<open>
  Claim C2, as amended: the matcher is built from the path of the collection file with
  \<^verbatim>\<open>$name.astro\<close> replaced by the name itself, so the matcher of \<^verbatim>\<open>$tag.astro\<close> is the
  prefix \<^verbatim>\<open>/tag\<close>, followed by nothing or by a slash and the rest, which is captured. The
  request \<^verbatim>\<open>/tag/javascript/2\<close> is matched with page 2; the matcher returns the file and
  the page number and no parameter value.
\<close>

theorem tag_page_matches_its_name:
  "collection_pattern ''$tag.astro'' = ''tag''
   \<and> regex_literal ''tag''
   \<and> reqURL_match ''tag'' ''/tag/javascript/2'' = Some (Some ''javascript/2'')
   \<and> loadCollection ''/tag/javascript/2'' tag_site
       = Inr (Some \<lparr>cm_location = PageFile ''$tag.astro'', cm_currentPage = Some 2\<rparr>)"
  by (simp add: search_defs regex_literal_def)

text \<open>
  Claim C3 says that the page number of a found collection route is a positive integer,
  and that a last segment that is no positive integer leaves the default 1. The code
  takes any integer but 0 that \<^verbatim>\<open>parseInt\<close> reads: the request \<^verbatim>\<open>/tag/-3\<close> is found with
  page \<open>-3\<close>.
\<close>

theorem negative_page_number_is_found:
  "searchForPage ''/tag/-3'' tag_site
     = Inr (SR200 (PageFile ''$tag.astro'') ''/tag/-3'' (Some (- 3)))"
  by (simp add: search_defs)




section \<open>The collection data engine\<close>

lemma ceil_div: "- ((- l) div n) = \<lceil>real_of_int l / real_of_int n\<rceil>"
proof -
  have "\<lfloor>real_of_int (- l) / real_of_int n\<rfloor> = (- l) div n"
    by (rule floor_divide_of_int_eq)
  then show ?thesis by (simp add: ceiling_def)
qed

lemma js_slice_all: "js_slice xs 0 (int (length xs)) = xs"
  by (simp add: js_slice_def)

lemma collection_pages_Some:
  assumes "p \<noteq> 0" and "collection_pages cc reqPath (Some p) ps urls dat = Collection st info"
  shows "st = paginated (effective_pageSize (cc_pageSize cc)) reqPath p ps dat"
  using assms
  by (auto simp: collection_pages_def paginate_def Let_def split: if_splits)

lemma page2:
  "collection_pages posts_collection ''/posts/2'' (Some 2) None [] posts25
     = Collection page2_state posts_info"
  by (simp add: engine_defs)




text \<open>
  Claim C4 says that the \<^verbatim>\<open>end\<close> of the collection is \<open>min (start + N) L\<close>. The first
  page of 25 records, ten to a page, has \<^verbatim>\<open>end\<close> 9, and \<open>min (0 + 10) 25\<close> is 10.
\<close>

theorem state_end_is_inclusive:
  "map_option c_end
     (rendered_collection
        (fst (load (runtime_of posts_site posts_module) (request_of ''/posts/1''))))
     = Some 9
   \<and> min ((1 - 1) * 10 + 10) (int (length posts25)) = 10"
  by (simp add: search_defs engine_defs load_defs)

text \<open>
  Claim C4, as amended: for a request that carries the page number \<open>p\<close>, with page size
  \<open>N\<close> and a dataset of length \<open>L\<close>, the collection handed on has
  \<open>start = (p - 1) * N\<close>, \<open>end = min (start + N) L - 1\<close> (the index of the last record
  of the page, not the bound of the slice), \<open>page.last = \<lceil>L / N\<rceil>\<close>, and as data the
  slice of the dataset from \<open>start\<close> to \<open>min (start + N) L\<close>; with an unbounded page
  size, \<open>start = 0\<close>, \<open>end = L - 1\<close>, \<open>page.last = 0\<close> and the data is the whole
  dataset.
\<close>

theorem paginated_state_bounds:
  assumes "p \<noteq> 0"
    and "collection_pages cc reqPath (Some p) ps urls dat = Collection st info"
  shows "(case effective_pageSize (cc_pageSize cc) of
            Finite N \<Rightarrow>
              c_start st = (p - 1) * N
              \<and> c_end st = min ((p - 1) * N + N) (int (length dat)) - 1
              \<and> pg_last st = \<lceil>real_of_int (int (length dat)) / real_of_int N\<rceil>
              \<and> c_data st
                  = js_slice dat ((p - 1) * N) (min ((p - 1) * N + N) (int (length dat)))
          | Infinity \<Rightarrow>
              c_start st = 0 \<and> c_end st = int (length dat) - 1 \<and> pg_last st = 0
              \<and> c_data st = dat)"
proof -
  have st: "st = paginated (effective_pageSize (cc_pageSize cc)) reqPath p ps dat"
    using assms by (rule collection_pages_Some)
  show ?thesis
  proof (cases "effective_pageSize (cc_pageSize cc)")
    case (Finite N)
    then show ?thesis
      by (simp add: st paginated_def page_start_def page_end_def page_count_def Let_def
          ceil_div)
  next
    case Infinity
    then show ?thesis
      by (simp add: st paginated_def page_start_def page_end_def page_count_def Let_def
          js_slice_all)
  qed
qed

theorem paginated_state_bounds_witness:
  "collection_pages posts_collection ''/posts/2'' (Some 2) None [] posts25
     = Collection page2_state posts_info
   \<and> c_start page2_state = (2 - 1) * 10
   \<and> c_end page2_state = min ((2 - 1) * 10 + 10) (int (length posts25)) - 1
   \<and> pg_last page2_state = \<lceil>real_of_int (int (length posts25)) / real_of_int 10\<rceil>
   \<and> c_data page2_state
       = js_slice posts25 ((2 - 1) * 10) (min ((2 - 1) * 10 + 10) (int (length posts25)))
   \<and> c_end page2_state = 19
   \<and> c_data page2_state = [11, 12, 13, 14, 15, 16, 17, 18, 19, 20]"
proof -
  have size: "effective_pageSize (cc_pageSize posts_collection) = Finite 10"
    by (simp add: effective_pageSize_def posts_collection_def)
  have "c_start page2_state = (2 - 1) * 10
        \<and> c_end page2_state = min ((2 - 1) * 10 + 10) (int (length posts25)) - 1
        \<and> pg_last page2_state = \<lceil>real_of_int (int (length posts25)) / real_of_int 10\<rceil>
        \<and> c_data page2_state
            = js_slice posts25 ((2 - 1) * 10) (min ((2 - 1) * 10 + 10) (int (length posts25)))"
    using paginated_state_bounds [of 2, OF _ page2] by (simp add: size)
  moreover have "c_end page2_state = 19"
    and "c_data page2_state = [11, 12, 13, 14, 15, 16, 17, 18, 19, 20]"
    by (simp_all add: page2_state_def)
  ultimately show ?thesis using page2 by simp
qed










text \<open>
  Claim C1 says that a request for a collection with a declared page size and no page
  number in its path is redirected to the path with \<^verbatim>\<open>/1\<close> appended. The resolver gives
  every collection route a page number, 1 when the path has none, so the redirect of line
  167 is not reached: the request \<^verbatim>\<open>/posts\<close> for the page \<^verbatim>\<open>$posts.astro\<close>, which
  declares \<^verbatim>\<open>pageSize: 10\<close> over 25 records, is answered with status 200.
\<close>

theorem bare_collection_path_is_not_redirected:
  "searchForPage ''/posts'' posts_site
     = Inr (SR200 (PageFile ''$posts.astro'') ''/posts'' (Some 1))
   \<and> pageSize_declared (cc_pageSize posts_collection)
   \<and> snd (load (runtime_of posts_site posts_module) (request_of ''/posts''))
       = Inr (LR200 ''<html></html>'' ''text/html; charset=utf-8'' (Some posts_info))"
  by (simp add: search_defs engine_defs load_defs)

text \<open>
  Claim C6 says that the previous URL of page \<open>p > 1\<close>, followed as a request, resolves
  with page \<open>p - 1\<close>. The request \<^verbatim>\<open>/posts/2/\<close> resolves with page 2; the current URL of
  its collection is \<^verbatim>\<open>/posts/2/index.html\<close>, which ends in no page number, so the previous
  URL is \<^verbatim>\<open>/posts/2/index.html\<close> as well, and that path is not found.
\<close>

theorem prev_of_trailing_slash_page_is_lost:
  "searchForPage ''/posts/2/'' posts_site
     = Inr (SR200 (PageFile ''$posts.astro'') ''/posts/2/'' (Some 2))
   \<and> map_option url_prev
         (rendered_collection
            (fst (load (runtime_of posts_site posts_module) (request_of ''/posts/2/''))))
       = Some (Some ''/posts/2/index.html'')
   \<and> searchForPage ''/posts/2/index.html'' posts_site = Inr SR404"
  by (simp add: search_defs engine_defs load_defs)

lemma check_keys_unknown:
  "key \<in> set keys \<Longrightarrow> key \<notin> set VALID_KEYS
     \<Longrightarrow> \<exists>k. k \<in> set keys \<and> k \<notin> set VALID_KEYS \<and> check_keys keys = Some (unknown_option k)"
  by (induction keys) auto

lemma catch_unknown_option:
  "catch_error cfg req reqPath (unknown_option k) = Inr (LR500 Kind_unknown (unknown_option k))"
  by (simp add: catch_error_def unknown_option_def mk_error_def)

text \<open>
  Claim C7: when the object \<^verbatim>\<open>createCollection()\<close> resolves to has a key outside
  \<^verbatim>\<open>data\<close>, \<^verbatim>\<open>routes\<close>, \<^verbatim>\<open>permalink\<close>, \<^verbatim>\<open>pageSize\<close> and \<^verbatim>\<open>rss\<close>, the engine throws the
  error that names an unknown key, and \<^verbatim>\<open>data()\<close> has not been called: the only call
  \<^verbatim>\<open>load\<close> made for the page is the loading of the module. \<^verbatim>\<open>load\<close> answers 500 with
  that error.
\<close>

theorem unknown_key_fails_before_data:
  assumes "key \<in> set (cc_keys cc)" and "key \<notin> set VALID_KEYS"
    and "ssrLoadModule cfg loc = Inr m" and "m_createCollection m = Some (Inr cc)"
  shows "\<exists>k. k \<in> set (cc_keys cc) \<and> k \<notin> set VALID_KEYS
           \<and> collection_engine cc reqPath currentPage = ([], Inl (unknown_option k))
           \<and> load_page cfg req reqPath loc currentPage
               = ([LoadModule loc], Inr (LR500 Kind_unknown (unknown_option k)))"
proof -
  from check_keys_unknown [OF assms(1,2)] obtain k where
    k: "k \<in> set (cc_keys cc)" "k \<notin> set VALID_KEYS"
       "check_keys (cc_keys cc) = Some (unknown_option k)" by blast
  have e: "collection_engine cc reqPath currentPage = ([], Inl (unknown_option k))"
    by (simp add: collection_engine_def k(3))
  have "load_page cfg req reqPath loc currentPage
          = ([LoadModule loc], Inr (LR500 Kind_unknown (unknown_option k)))"
    by (simp add: load_page_def assms(3,4) e catch_unknown_option)
  with k e show ?thesis by blast
qed

theorem unknown_key_fails_before_data_witness:
  "''foo'' \<in> set (cc_keys foo_collection) \<and> ''foo'' \<notin> set VALID_KEYS
   \<and> collection_engine foo_collection ''/posts/2'' (Some 2) = ([], Inl (unknown_option ''foo''))
   \<and> load_page (runtime_of posts_site foo_module) (request_of ''/posts/2'') ''/posts/2''
         (PageFile ''$posts.astro'') (Some 2)
       = ([LoadModule (PageFile ''$posts.astro'')],
          Inr (LR500 Kind_unknown (unknown_option ''foo'')))"
proof -
  let ?cfg = "runtime_of posts_site foo_module"
  let ?loc = "PageFile ''$posts.astro''"
  have keys: "cc_keys foo_collection = [''data'', ''foo'', ''pageSize'']"
    by (simp add: foo_collection_def)
  have a: "''foo'' \<in> set (cc_keys foo_collection)" by (simp add: keys)
  have b: "''foo'' \<notin> set VALID_KEYS" by (simp add: VALID_KEYS_def)
  have m: "ssrLoadModule ?cfg ?loc = Inr foo_module"
    and cc: "m_createCollection foo_module = Some (Inr foo_collection)"
    by (simp_all add: runtime_of_def foo_module_def posts_module_def)
  from unknown_key_fails_before_data [OF a b m cc, of "''/posts/2''" "Some 2" "request_of ''/posts/2''"]
  obtain k where k: "k \<in> set (cc_keys foo_collection)" "k \<notin> set VALID_KEYS"
    and e: "collection_engine foo_collection ''/posts/2'' (Some 2) = ([], Inl (unknown_option k))"
    and l: "load_page ?cfg (request_of ''/posts/2'') ''/posts/2'' ?loc (Some 2)
              = ([LoadModule ?loc], Inr (LR500 Kind_unknown (unknown_option k)))"
    by blast
  from k have "k = ''foo''" by (auto simp: keys VALID_KEYS_def)
  with a b e l show ?thesis by simp
qed

section \<open>The request dispatcher\<close>



















end
